theory Spec2Isabelle
  imports Main "HOL-Library.Finite_Map" "HOL-Library.Sublist"
begin

section \<open>Python values\<close>

text \<open>
  The status payloads, the cached state and the configuration values of localtuya are
  plain Python objects: \<open>None\<close>, booleans, integers, strings and dictionaries with string
  keys (datapoint indices such as \<open>"1"\<close>, sub-device ids such as \<open>"26"\<close>). A dictionary is a
  finite map; nothing in the modelled code depends on the insertion order of a status
  dictionary.
\<close>

datatype pyval =
    PNone
  | PBool bool
  | PInt int
  | PStr string
  | PDict "(string, pyval) fmap"

type_synonym pydict = "(string, pyval) fmap"

text \<open>The exceptions that the modelled code can raise or receive from the transport.\<close>

datatype pyerr = KeyError | AttributeError | TypeError | ValueError | TransportError

text \<open>Python truthiness, as tested by \<open>if status:\<close>, \<open>if cid:\<close> and \<open>if initial_value:\<close>.\<close>

fun truthy :: "pyval \<Rightarrow> bool" where
  "truthy PNone = False"
| "truthy (PBool b) = b"
| "truthy (PInt i) = (i \<noteq> 0)"
| "truthy (PStr s) = (s \<noteq> [])"
| "truthy (PDict d) = (d \<noteq> fmempty)"

text \<open>\<open>if cid:\<close> for an optional sub-device id: \<open>None\<close> and the empty string are both falsy.\<close>

definition cid_truthy :: "string option \<Rightarrow> bool" where
  "cid_truthy cid = (case cid of None \<Rightarrow> False | Some c \<Rightarrow> c \<noteq> [])"

text \<open>\<open>v[k]\<close>: a missing key raises \<open>KeyError\<close>, a value that is no dictionary cannot be
  indexed by a string and raises \<open>TypeError\<close>.\<close>

definition py_getitem :: "pyval \<Rightarrow> string \<Rightarrow> pyerr + pyval" where
  "py_getitem v k =
     (case v of
        PDict d \<Rightarrow> (case fmlookup d k of None \<Rightarrow> Inl KeyError | Some x \<Rightarrow> Inr x)
      | _ \<Rightarrow> Inl TypeError)"

text \<open>\<open>v.get(k)\<close>: only a dictionary has the method; a missing key gives \<open>None\<close>.\<close>

definition py_get :: "pyval \<Rightarrow> string \<Rightarrow> pyerr + pyval" where
  "py_get v k =
     (case v of
        PDict d \<Rightarrow> Inr (case fmlookup d k of None \<Rightarrow> PNone | Some x \<Rightarrow> x)
      | _ \<Rightarrow> Inl AttributeError)"

text \<open>\<open>d.update(x)\<close> on a dictionary \<open>d\<close>: a dictionary argument overwrites key by key; the
  empty string is an empty iterable and changes nothing; a non-empty string yields
  one-character items and raises \<open>ValueError\<close>; \<open>None\<close>, booleans and integers are not
  iterable and raise \<open>TypeError\<close>.\<close>

definition dict_update :: "pydict \<Rightarrow> pyval \<Rightarrow> pyerr + pydict" where
  "dict_update d x =
     (case x of
        PDict u \<Rightarrow> Inr (d ++\<^sub>f u)
      | PStr s \<Rightarrow> (if s = [] then Inr d else Inl ValueError)
      | _ \<Rightarrow> Inl TypeError)"

section \<open>Observable effects\<close>

text \<open>
  Calls that leave the modelled classes (the transport, the dispatcher, the logger, the
  event loop, the hooks of Home Assistant) are recorded in a trace, in program order.
\<close>

datatype level = LDebug | LWarning | LError | LException

datatype task = MakeConnection

datatype effect =
    Log level
  | DispatcherSend pyval
  | InterfaceSetDp pyval pyval "string option"
  | InterfaceSetDps "(pyval \<times> pyval) list" "string option"
  | InterfaceStatus "string option"
  | CreateTask task
  | StatusUpdatedHook
  | ScheduleUpdateHaState

text \<open>
  The transport (\<open>pytuya\<close>) is an external collaborator. What its calls answer is an input
  of the model: \<open>None\<close> for a call that returns, \<open>Some e\<close> for one that raises \<open>e\<close>, and for
  the status query either the exception or the returned value (\<open>PNone\<close> when the device
  sent no data).
\<close>

record transport =
  set_dp_reply :: "pyerr option"
  set_dps_reply :: "pyerr option"
  status_reply :: "pyerr + pyval"

section \<open>TuyaDevice\<close>

text \<open>The closure \<open>refresh_callback\<close> of \<open>refresh_subdevice\<close> captures \<open>cid\<close>, \<open>dp\<close> and
  \<open>initial_value\<close>.\<close>

datatype refresh_closure = RefreshCallback string pyval pyval

datatype iface = TuyaInterface

text \<open>
  The fields of \<open>TuyaDevice\<close>. \<open>_refresh_callbacks\<close> is created lazily by
  \<open>refresh_subdevice\<close>; \<open>None\<close> stands for the attribute not existing yet.
\<close>

record tuya_device =
  d_interface :: "iface option"
  d_status :: pydict
  d_is_closing :: bool
  d_connect_task :: "task option"
  d_refresh_callbacks :: "(string, refresh_closure) fmap option"

text \<open>The device as \<open>__init__\<close> leaves it: no transport handle, an empty cache, not closing,
  no connection task, and no \<open>_refresh_callbacks\<close> attribute.\<close>

definition init_device :: tuya_device where
  "init_device = \<lparr>d_interface = None, d_status = fmempty, d_is_closing = False,
                    d_connect_task = None, d_refresh_callbacks = None\<rparr>"

text \<open>
  \<open>TuyaDevice.status_updated(status, cid)\<close>. The method mutates \<open>self._status\<close> and then
  sends it on the dispatcher. The receiver \<open>self._status[cid]\<close> and its attribute \<open>update\<close>
  are evaluated before the argument \<open>status[cid]\<close>, so a cached entry that is no dictionary
  raises \<open>AttributeError\<close> first. Every exception is raised before the cache is changed.
\<close>

definition status_updated ::
  "tuya_device \<Rightarrow> pyval \<Rightarrow> string option \<Rightarrow> tuya_device \<times> effect list \<times> (pyerr + unit)" where
  "status_updated self status cid =
     (let merged =
        (case cid of
           Some c \<Rightarrow>
             (if c \<noteq> [] then
                (case fmlookup (d_status self) c of
                   Some cur \<Rightarrow>
                     (case cur of
                        PDict d \<Rightarrow>
                          (case py_getitem status c of
                             Inl e \<Rightarrow> Inl e
                           | Inr upd \<Rightarrow>
                               (case dict_update d upd of
                                  Inl e \<Rightarrow> Inl e
                                | Inr d' \<Rightarrow> Inr (fmupd c (PDict d') (d_status self))))
                      | _ \<Rightarrow> Inl AttributeError)
                 | None \<Rightarrow>
                     (case py_getitem status c of
                        Inl e \<Rightarrow> Inl e
                      | Inr upd \<Rightarrow> Inr (fmupd c upd (d_status self))))
              else dict_update (d_status self) status)
         | None \<Rightarrow> dict_update (d_status self) status)
      in case merged of
           Inl e \<Rightarrow> (self, [], Inl e)
         | Inr cache \<Rightarrow> (self\<lparr>d_status := cache\<rparr>, [DispatcherSend (PDict cache)], Inr ()))"

text \<open>
  \<open>TuyaDevice.disconnected()\<close>: the transport's callback on link loss. It sends the
  disconnect sentinel \<open>None\<close> on the dispatcher and drops the transport handle.
\<close>

definition disconnected :: "tuya_device \<Rightarrow> tuya_device \<times> effect list \<times> (pyerr + unit)" where
  "disconnected self =
     (self\<lparr>d_interface := None\<rparr>, [DispatcherSend PNone, Log LDebug], Inr ())"

text \<open>
  \<open>TuyaDevice.async_connect()\<close>: the guard tests the closing flag, the task field and the
  transport handle; only when all three allow it is a task created and stored.
\<close>

definition async_connect :: "tuya_device \<Rightarrow> tuya_device \<times> effect list" where
  "async_connect self =
     (if \<not> d_is_closing self \<and> d_connect_task self = None \<and> d_interface self = None
      then (self\<lparr>d_connect_task := Some MakeConnection\<rparr>, [CreateTask MakeConnection])
      else (self, []))"

text \<open>
  \<open>TuyaDevice.set_dp\<close> and \<open>TuyaDevice.set_dps\<close>: forwarded to the transport when there is
  one; an exception of the transport is logged and swallowed. Both return \<open>None\<close> and leave
  the device unchanged, so the model returns the trace only.
\<close>

definition set_dp :: "tuya_device \<Rightarrow> transport \<Rightarrow> pyval \<Rightarrow> pyval \<Rightarrow> string option \<Rightarrow> effect list" where
  "set_dp self tr state dp_index cid =
     (case d_interface self of
        Some i \<Rightarrow>
          InterfaceSetDp state dp_index cid #
            (case set_dp_reply tr of None \<Rightarrow> [] | Some e \<Rightarrow> [Log LException])
      | None \<Rightarrow> [Log LError])"

definition set_dps :: "tuya_device \<Rightarrow> transport \<Rightarrow> (pyval \<times> pyval) list \<Rightarrow> string option \<Rightarrow> effect list" where
  "set_dps self tr states cid =
     (case d_interface self of
        Some i \<Rightarrow>
          InterfaceSetDps states cid #
            (case set_dps_reply tr of None \<Rightarrow> [] | Some e \<Rightarrow> [Log LException])
      | None \<Rightarrow> [Log LError])"

text \<open>
  \<open>TuyaDevice.status(cid)\<close>: queries the transport; a returned status is merged by
  \<open>status_updated\<close>, a \<open>None\<close> result raises inside the \<open>try\<close>; every exception raised in the
  \<open>try\<close> block (also one of \<open>status_updated\<close>) is logged and swallowed.
\<close>

definition status :: "tuya_device \<Rightarrow> transport \<Rightarrow> string option \<Rightarrow> tuya_device \<times> effect list \<times> (pyerr + unit)" where
  "status self tr cid =
     (case d_interface self of
        Some i \<Rightarrow>
          (case status_reply tr of
             Inl e \<Rightarrow> (self, [Log LDebug, InterfaceStatus cid, Log LException], Inr ())
           | Inr st \<Rightarrow>
               (if st \<noteq> PNone then
                  (case status_updated self st cid of
                     (self', effs, Inr u) \<Rightarrow> (self', [Log LDebug, InterfaceStatus cid] @ effs, Inr ())
                   | (self', effs, Inl e) \<Rightarrow>
                       (self', [Log LDebug, InterfaceStatus cid] @ effs @ [Log LException], Inr ()))
                else (self, [Log LDebug, InterfaceStatus cid, Log LException], Inr ())))
      | None \<Rightarrow> (self, [Log LError], Inr ()))"

text \<open>
  The closure \<open>refresh_callback\<close>: it deletes its own entry, writes the initial value when
  \<open>initial_value\<close> is truthy (directly on \<open>self._interface\<close>, outside any \<open>try\<close>), then queries
  the status of the sub-device.
\<close>

definition refresh_callback ::
  "tuya_device \<Rightarrow> transport \<Rightarrow> refresh_closure \<Rightarrow> tuya_device \<times> effect list \<times> (pyerr + unit)" where
  "refresh_callback self tr cb =
     (case cb of RefreshCallback cid dp initial_value \<Rightarrow>
        (case d_refresh_callbacks self of
           None \<Rightarrow> (self, [], Inl AttributeError)
         | Some cbs \<Rightarrow>
             (if cid |\<notin>| fmdom cbs then (self, [], Inl KeyError)
              else
                let self1 = self\<lparr>d_refresh_callbacks := Some (fmdrop cid cbs)\<rparr> in
                if truthy initial_value then
                  (case d_interface self1 of
                     None \<Rightarrow> (self1, [Log LDebug, Log LDebug], Inl AttributeError)
                   | Some i \<Rightarrow>
                       (case set_dps_reply tr of
                          Some e \<Rightarrow>
                            (self1,
                             [Log LDebug, Log LDebug, InterfaceSetDps [(dp, initial_value)] (Some cid)],
                             Inl e)
                        | None \<Rightarrow>
                            (case status self1 tr (Some cid) of
                               (self2, effs, out) \<Rightarrow>
                                 (self2,
                                  [Log LDebug, Log LDebug,
                                   InterfaceSetDps [(dp, initial_value)] (Some cid)] @ effs,
                                  out))))
                else
                  (case status self1 tr (Some cid) of
                     (self2, effs, out) \<Rightarrow> (self2, Log LDebug # effs, out)))))"

text \<open>
  \<open>TuyaDevice.refresh_subdevice(cid, dp, value, initial_value)\<close>: creates the callback map
  when the attribute does not exist, stores the closure under \<open>cid\<close>, then writes the trigger
  value on \<open>self._interface\<close> (outside any \<open>try\<close>).
\<close>

definition refresh_subdevice ::
  "tuya_device \<Rightarrow> transport \<Rightarrow> string \<Rightarrow> pyval \<Rightarrow> pyval \<Rightarrow> pyval \<Rightarrow>
     tuya_device \<times> effect list \<times> (pyerr + unit)" where
  "refresh_subdevice self tr cid dp v initial_value =
     (let cbs = (case d_refresh_callbacks self of None \<Rightarrow> fmempty | Some m \<Rightarrow> m);
          self1 = self\<lparr>d_refresh_callbacks :=
                    Some (fmupd cid (RefreshCallback cid dp initial_value) cbs)\<rparr>
      in case d_interface self1 of
           None \<Rightarrow> (self1, [Log LDebug], Inl AttributeError)
         | Some i \<Rightarrow>
             (self1, [Log LDebug, InterfaceSetDps [(dp, v)] (Some cid)],
              (case set_dps_reply tr of None \<Rightarrow> Inr () | Some e \<Rightarrow> Inl e)))"

section \<open>LocalTuyaEntity\<close>

text \<open>
  The keys of an entity's configuration. Their string values are defined in \<open>const.py\<close> and
  in Home Assistant, which are not part of the sources at hand; only their being distinct
  keys matters, so they are modelled by name.
\<close>

datatype conf_key =
    CONF_ID | CONF_FRIENDLY_NAME | CONF_ZIGBEE
  | CONF_TARGET_TEMPERATURE_DP | CONF_CURRENT_TEMPERATURE_DP | CONF_TEMPERATURE_STEP
  | CONF_HVAC_MODE_DP | CONF_PRESET_MODE_DP | CONF_MAX_TEMP_DP | CONF_MIN_TEMP_DP
  | CONF_PRECISION | CONF_TEMPERATURE_UNIT

text \<open>A datapoint index as the accessors receive it: an integer or a string from the
  configuration, or \<open>None\<close> when \<open>dps_conf\<close> found no configured index.\<close>

datatype dp_index = DpNone | DpInt int | DpStr string

text \<open>The decimal digit of a number below ten.\<close>

definition digit_char :: "nat \<Rightarrow> char" where
  "digit_char n = ''0123456789'' ! n"

function str_nat :: "nat \<Rightarrow> string" where
  "str_nat n = (if n < 10 then [digit_char n] else str_nat (n div 10) @ [digit_char (n mod 10)])"
  by pat_completeness auto
termination
  by (relation "measure id") auto

declare str_nat.simps [simp del]

text \<open>\<open>str(dp_index)\<close>.\<close>

fun py_str :: "dp_index \<Rightarrow> string" where
  "py_str DpNone = ''None''"
| "py_str (DpInt i) = (if i < 0 then CHR ''-'' # str_nat (nat (- i)) else str_nat (nat i))"
| "py_str (DpStr s) = s"

text \<open>
  The fields of \<open>LocalTuyaEntity\<close> as \<open>__init__\<close> leaves them. \<open>_status\<close> starts as the empty
  dictionary; the update handler later assigns whatever truthy object it extracted from
  the payload, so the field holds an arbitrary value.
\<close>

record local_tuya_entity =
  e_cid :: "string option"
  e_dp_id :: dp_index
  e_config :: "(conf_key, pyval) fmap"
  e_status :: pyval

text \<open>\<open>has_config(attr)\<close>: a configured value that is neither \<open>None\<close> nor the string
  \<open>"-1"\<close>.\<close>

definition has_config :: "'a local_tuya_entity_scheme \<Rightarrow> conf_key \<Rightarrow> bool" where
  "has_config self attr =
     (let v = (case fmlookup (e_config self) attr of None \<Rightarrow> PStr ''-1'' | Some x \<Rightarrow> x)
      in v \<noteq> PNone \<and> v \<noteq> PStr ''-1'')"

text \<open>
  \<open>available\<close>: \<open>str(self._dp_id) in self._status\<close>. On a dictionary this is key membership,
  on a string the substring test; the other values are not containers.
\<close>

definition available :: "'a local_tuya_entity_scheme \<Rightarrow> pyerr + bool" where
  "available self =
     (case e_status self of
        PDict d \<Rightarrow> Inr (py_str (e_dp_id self) |\<in>| fmdom d)
      | PStr s \<Rightarrow> Inr (sublist (py_str (e_dp_id self)) s)
      | _ \<Rightarrow> Inl TypeError)"

text \<open>\<open>dps(dp_index)\<close>: the cached value, with a warning when it is \<open>None\<close>.\<close>

definition dps :: "'a local_tuya_entity_scheme \<Rightarrow> dp_index \<Rightarrow> effect list \<times> (pyerr + pyval)" where
  "dps self dp_index =
     (case py_get (e_status self) (py_str dp_index) of
        Inl e \<Rightarrow> ([], Inl e)
      | Inr v \<Rightarrow> (if v = PNone then [Log LWarning] else [], Inr v))"

text \<open>\<open>LocalTuyaEntity.set_dp\<close> delegates to the device with the entity's cid.\<close>

definition entity_set_dp ::
  "tuya_device \<Rightarrow> 'a local_tuya_entity_scheme \<Rightarrow> transport \<Rightarrow> pyval \<Rightarrow> pyval \<Rightarrow> effect list" where
  "entity_set_dp dev self tr state dp_index = set_dp dev tr state dp_index (e_cid self)"

text \<open>
  The closure \<open>_update_handler(status)\<close> that \<open>async_added_to_hass\<close> connects to the device's
  signal. \<open>self.status_updated()\<close> is the hook that subclasses override (empty in
  \<open>LocalTuyaEntity\<close>); its call and the call of \<open>schedule_update_ha_state\<close> are recorded in
  the trace. The handler reads and, through the refresh callback, changes the device, so
  it takes and returns both objects.
\<close>

definition update_handler ::
  "tuya_device \<Rightarrow> 'a local_tuya_entity_scheme \<Rightarrow> transport \<Rightarrow> pyval \<Rightarrow>
     (tuya_device \<times> 'a local_tuya_entity_scheme) \<times> effect list \<times> (pyerr + unit)" where
  "update_handler dev self tr payload =
     (let store = (\<lambda>st.
            if truthy st
            then ((dev, self\<lparr>e_status := st\<rparr>), [StatusUpdatedHook, ScheduleUpdateHaState], Inr ())
            else ((dev, self\<lparr>e_status := PDict fmempty\<rparr>), [ScheduleUpdateHaState], Inr ()))
      in case e_cid self of
           None \<Rightarrow> store payload
         | Some c \<Rightarrow>
             (if c = [] then store payload
              else
                (case py_get payload c of
                   Inl e \<Rightarrow> ((dev, self), [], Inl e)
                 | Inr st \<Rightarrow>
                     (if truthy st then
                        (case d_refresh_callbacks dev of
                           None \<Rightarrow> ((dev, self), [], Inl AttributeError)
                         | Some cbs \<Rightarrow>
                             (case fmlookup cbs c of
                                Some cb \<Rightarrow>
                                  (case refresh_callback dev tr cb of
                                     (dev', effs, out) \<Rightarrow> ((dev', self), effs, out))
                              | None \<Rightarrow> store st))
                      else store st))))"

section \<open>LocaltuyaClimate\<close>

text \<open>The constants of Home Assistant's climate component that \<open>climate.py\<close> imports.\<close>

definition PRESET_ECO :: string where "PRESET_ECO = ''eco''"
definition PRESET_AWAY :: string where "PRESET_AWAY = ''away''"
definition PRESET_BOOST :: string where "PRESET_BOOST = ''boost''"
definition PRESET_COMFORT :: string where "PRESET_COMFORT = ''comfort''"
definition PRESET_HOME :: string where "PRESET_HOME = ''home''"
definition HVAC_MODE_AUTO :: string where "HVAC_MODE_AUTO = ''auto''"
definition HVAC_MODE_HEAT :: string where "HVAC_MODE_HEAT = ''heat''"
definition HVAC_MODE_OFF :: string where "HVAC_MODE_OFF = ''off''"
definition ATTR_TEMPERATURE :: string where "ATTR_TEMPERATURE = ''temperature''"

text \<open>The two remapping tables of \<open>climate.py\<close>, in their order of iteration.\<close>

definition PRESET_REMAP :: "(string \<times> string) list" where
  "PRESET_REMAP = [(PRESET_AWAY, ''holiday''), (PRESET_BOOST, ''BOOST''), (PRESET_HOME, ''manual'')]"

definition HVAC_PRESET_REMAP :: "(string \<times> string) list" where
  "HVAC_PRESET_REMAP = [(HVAC_MODE_HEAT, ''manual'')]"

record localtuya_climate = local_tuya_entity +
  c_preset_mode :: pyval
  c_hvac_mode :: pyval
  c_precision :: pyval

text \<open>
  What a method hands back to its caller: an ordinary value, a list of mode names, or a
  \<open>NotImplementedError\<close> object that is returned, not raised.
\<close>

datatype ret = Ret pyval | RetList "string list" | RetNotImplementedError

definition preset_modes :: "localtuya_climate \<Rightarrow> ret" where
  "preset_modes self =
     (if has_config self CONF_PRESET_MODE_DP
      then RetList ([PRESET_COMFORT, PRESET_ECO] @ map fst PRESET_REMAP)
      else RetNotImplementedError)"

text \<open>\<open>preset_mode\<close>: the first key of \<open>PRESET_REMAP\<close> whose value is the cached preset,
  else the cached preset when it is one of \<open>preset_modes\<close>, else \<open>PRESET_HOME\<close>.\<close>

definition preset_mode :: "localtuya_climate \<Rightarrow> pyerr + ret" where
  "preset_mode self =
     (if has_config self CONF_PRESET_MODE_DP then
        (case find (\<lambda>(preset, v). PStr v = c_preset_mode self) PRESET_REMAP of
           Some (preset, v) \<Rightarrow> Inr (Ret (PStr preset))
         | None \<Rightarrow>
             (case preset_modes self of
                RetList ms \<Rightarrow>
                  (if c_preset_mode self \<in> set (map PStr ms)
                   then Inr (Ret (c_preset_mode self))
                   else Inr (Ret (PStr PRESET_HOME)))
              | _ \<Rightarrow> Inl TypeError))
      else Inr RetNotImplementedError)"

definition hvac_modes :: "localtuya_climate \<Rightarrow> ret" where
  "hvac_modes self =
     (if has_config self CONF_HVAC_MODE_DP
      then RetList ([HVAC_MODE_AUTO, HVAC_MODE_HEAT] @
                    (if \<not> has_config self CONF_ZIGBEE then [HVAC_MODE_OFF] else []))
      else RetList [])"

definition async_set_preset_mode ::
  "tuya_device \<Rightarrow> localtuya_climate \<Rightarrow> transport \<Rightarrow> string \<Rightarrow> effect list \<times> (pyerr + ret)" where
  "async_set_preset_mode dev self tr mode =
     (if has_config self CONF_PRESET_MODE_DP then
        (case fmlookup (e_config self) CONF_PRESET_MODE_DP of
           None \<Rightarrow> ([], Inl KeyError)
         | Some dp \<Rightarrow>
             (entity_set_dp dev self tr
                (PStr (case map_of PRESET_REMAP mode of Some v \<Rightarrow> v | None \<Rightarrow> mode)) dp,
              Inr (Ret PNone)))
      else ([], Inr RetNotImplementedError))"

text \<open>\<open>async_set_hvac_mode\<close>: in the first branch the result of \<open>async_set_preset_mode\<close> is
  awaited and dropped, and the method returns \<open>None\<close>.\<close>

definition async_set_hvac_mode ::
  "tuya_device \<Rightarrow> localtuya_climate \<Rightarrow> transport \<Rightarrow> string \<Rightarrow> effect list \<times> (pyerr + ret)" where
  "async_set_hvac_mode dev self tr hvac_mode =
     (case map_of HVAC_PRESET_REMAP hvac_mode of
        Some p \<Rightarrow>
          (case async_set_preset_mode dev self tr p of
             (effs, Inl e) \<Rightarrow> (effs, Inl e)
           | (effs, Inr r) \<Rightarrow> (effs, Inr (Ret PNone)))
      | None \<Rightarrow>
          (if has_config self CONF_HVAC_MODE_DP then
             (case fmlookup (e_config self) CONF_HVAC_MODE_DP of
                None \<Rightarrow> ([], Inl KeyError)
              | Some dp \<Rightarrow> (entity_set_dp dev self tr (PStr hvac_mode) dp, Inr (Ret PNone)))
           else ([], Inr RetNotImplementedError)))"

text \<open>
  \<open>async_set_temperature(**kwargs)\<close>. The value written is
  \<open>round(kwargs[ATTR_TEMPERATURE] / self._precision)\<close>, a floating-point computation that is
  not modelled: it is the parameter \<open>round_div\<close>, which may also raise.
\<close>

definition async_set_temperature ::
  "(pyval \<Rightarrow> pyval \<Rightarrow> pyerr + pyval) \<Rightarrow> tuya_device \<Rightarrow> localtuya_climate \<Rightarrow> transport \<Rightarrow>
     (string, pyval) fmap \<Rightarrow> effect list \<times> (pyerr + ret)" where
  "async_set_temperature round_div dev self tr kwargs =
     (case fmlookup kwargs ATTR_TEMPERATURE of
        Some t \<Rightarrow>
          (if has_config self CONF_TARGET_TEMPERATURE_DP then
             (case round_div t (c_precision self) of
                Inl e \<Rightarrow> ([], Inl e)
              | Inr temperature \<Rightarrow>
                  (case fmlookup (e_config self) CONF_TARGET_TEMPERATURE_DP of
                     None \<Rightarrow> ([], Inl KeyError)
                   | Some dp \<Rightarrow> (entity_set_dp dev self tr temperature dp, Inr (Ret PNone))))
           else ([], Inr (Ret PNone)))
      | None \<Rightarrow> ([], Inr (Ret PNone)))"

section \<open>Example objects\<close>

text \<open>
  The objects of the scenarios of the specification: a connected device; entity A on
  datapoint 1 of the whole device; entity B on datapoint \<open>"2"\<close> of sub-device \<open>"26"\<close>; an
  entity on datapoint \<open>"1"\<close> of sub-device \<open>"30"\<close>, the sub-device with the refresh
  descriptor; and a transport whose calls all succeed.
\<close>

definition connected_device :: tuya_device where
  "connected_device = init_device\<lparr>d_interface := Some TuyaInterface\<rparr>"

definition entity_a :: local_tuya_entity where
  "entity_a = \<lparr>e_cid = None, e_dp_id = DpInt 1,
                 e_config = fmupd CONF_ID (PInt 1) fmempty,
                 e_status = PDict (fmupd ''1'' (PStr ''on'') fmempty)\<rparr>"

definition entity_b :: local_tuya_entity where
  "entity_b = \<lparr>e_cid = Some ''26'', e_dp_id = DpStr ''2'',
                 e_config = fmupd CONF_ID (PInt 2) fmempty,
                 e_status = PDict (fmupd ''2'' (PStr ''off'') fmempty)\<rparr>"


definition transport_ok :: transport where
  "transport_ok = \<lparr>set_dp_reply = None, set_dps_reply = None,
                     status_reply = Inr (PDict (fmupd ''30''
                        (PDict (fmupd ''1'' (PStr ''on'') (fmupd ''101'' (PBool False) fmempty)))
                        fmempty))\<rparr>"

text \<open>The connected device after \<open>refresh_subdevice("30", "101", True, False)\<close>, the call of
  the specification's refresh scenario.\<close>

definition armed_device :: tuya_device where
  "armed_device =
     fst (refresh_subdevice connected_device transport_ok ''30'' (PStr ''101'') (PBool True) (PBool False))"

text \<open>
  Two climate entities on the whole device: one configured with its own datapoint and the
  precision only, one that also configures the preset-mode datapoint \<open>"4"\<close> and the
  target-temperature datapoint \<open>"2"\<close> and caches the device preset \<open>"holiday"\<close>.
\<close>

definition climate_plain :: localtuya_climate where
  "climate_plain = \<lparr>e_cid = None, e_dp_id = DpInt 1,
     e_config = fmupd CONF_ID (PInt 1) (fmupd CONF_PRECISION (PInt 1) fmempty),
     e_status = PDict fmempty,
     c_preset_mode = PNone, c_hvac_mode = PNone, c_precision = PInt 1\<rparr>"

definition climate_full :: localtuya_climate where
  "climate_full = \<lparr>e_cid = None, e_dp_id = DpInt 1,
     e_config = fmupd CONF_ID (PInt 1) (fmupd CONF_PRECISION (PInt 1)
                 (fmupd CONF_PRESET_MODE_DP (PStr ''4'')
                   (fmupd CONF_TARGET_TEMPERATURE_DP (PStr ''2'') fmempty))),
     e_status = PDict fmempty,
     c_preset_mode = PStr ''holiday'', c_hvac_mode = PNone, c_precision = PInt 1\<rparr>"

section \<open>The merge rule of the status cache\<close>

lemma status_updated_scoped_absent:
  assumes "c \<noteq> []" and "fmlookup payload c = Some upd" and "fmlookup (d_status dev) c = None"
  shows "status_updated dev (PDict payload) (Some c) =
           (dev\<lparr>d_status := fmupd c upd (d_status dev)\<rparr>,
            [DispatcherSend (PDict (fmupd c upd (d_status dev)))], Inr ())"
  using assms by (simp add: status_updated_def py_getitem_def)

lemma status_updated_scoped_present:
  assumes "c \<noteq> []" and "fmlookup payload c = Some (PDict upd)"
    and "fmlookup (d_status dev) c = Some (PDict cur)"
  shows "status_updated dev (PDict payload) (Some c) =
           (dev\<lparr>d_status := fmupd c (PDict (cur ++\<^sub>f upd)) (d_status dev)\<rparr>,
            [DispatcherSend (PDict (fmupd c (PDict (cur ++\<^sub>f upd)) (d_status dev)))], Inr ())"
  using assms by (simp add: status_updated_def py_getitem_def dict_update_def)

lemma status_updated_unscoped:
  assumes "\<not> cid_truthy cid"
  shows "status_updated dev (PDict payload) cid =
           (dev\<lparr>d_status := d_status dev ++\<^sub>f payload\<rparr>,
            [DispatcherSend (PDict (d_status dev ++\<^sub>f payload))], Inr ())"
  using assms
  by (cases cid) (simp_all add: status_updated_def cid_truthy_def dict_update_def)

lemma dict_update_keeps_keys:
  assumes "dict_update d x = Inr d'"
  shows "fmdom d |\<subseteq>| fmdom d'"
  using assms by (auto simp: dict_update_def split: pyval.splits if_splits)

lemma status_updated_keeps_keys:
  "fmdom (d_status dev) |\<subseteq>| fmdom (d_status (fst (status_updated dev st cid)))"
proof (cases "snd (snd (status_updated dev st cid))")
  case (Inl e)
  then have "fst (status_updated dev st cid) = dev"
    by (auto simp: status_updated_def Let_def split: sum.splits)
  then show ?thesis by simp
next
  case (Inr u)
  then show ?thesis
    by (auto simp: status_updated_def Let_def py_getitem_def
        dest: dict_update_keeps_keys
        split: sum.splits option.splits pyval.splits if_splits)
qed

text \<open>
  Claim C1 (merge correctness of the status cache). An update scoped to a cid \<open>c\<close> whose
  payload carries the dictionary \<open>upd\<close> under \<open>c\<close> is merged into the store of \<open>c\<close>, which
  is created when it is absent: afterwards every key of \<open>upd\<close> has the value of \<open>upd\<close> and
  every other key of that store keeps its value; all other entries of the cache and all
  other fields of the device are unchanged, and the whole cache is sent on the dispatcher.
  An update that is not scoped overwrites the top level key by key in the same way. No
  call of \<open>status_updated\<close>, whatever it is given and whether it returns or raises, removes
  a key of the cache.
\<close>

theorem status_updated_merge:
  "(c \<noteq> [] \<and> fmlookup payload c = Some (PDict upd) \<and>
      (fmlookup (d_status dev) c = None \<and> cur = fmempty \<or>
       fmlookup (d_status dev) c = Some (PDict cur)) \<longrightarrow>
      (\<exists>sub. status_updated dev (PDict payload) (Some c) =
                (dev\<lparr>d_status := fmupd c (PDict sub) (d_status dev)\<rparr>,
                 [DispatcherSend (PDict (fmupd c (PDict sub) (d_status dev)))], Inr ()) \<and>
             (\<forall>k. fmlookup sub k =
                    (if k |\<in>| fmdom upd then fmlookup upd k else fmlookup cur k))))
   \<and> (\<not> cid_truthy cid \<longrightarrow>
      (\<exists>cache. status_updated dev (PDict payload) cid =
                  (dev\<lparr>d_status := cache\<rparr>, [DispatcherSend (PDict cache)], Inr ()) \<and>
               (\<forall>k. fmlookup cache k =
                      (if k |\<in>| fmdom payload then fmlookup payload k
                       else fmlookup (d_status dev) k))))
   \<and> fmdom (d_status dev) |\<subseteq>| fmdom (d_status (fst (status_updated dev st cid')))"
proof (intro conjI impI)
  assume h: "c \<noteq> [] \<and> fmlookup payload c = Some (PDict upd) \<and>
      (fmlookup (d_status dev) c = None \<and> cur = fmempty \<or>
       fmlookup (d_status dev) c = Some (PDict cur))"
  then consider (absent) "fmlookup (d_status dev) c = None" "cur = fmempty"
    | (present) "fmlookup (d_status dev) c = Some (PDict cur)"
    by auto
  then show "\<exists>sub. status_updated dev (PDict payload) (Some c) =
                (dev\<lparr>d_status := fmupd c (PDict sub) (d_status dev)\<rparr>,
                 [DispatcherSend (PDict (fmupd c (PDict sub) (d_status dev)))], Inr ()) \<and>
             (\<forall>k. fmlookup sub k =
                    (if k |\<in>| fmdom upd then fmlookup upd k else fmlookup cur k))"
  proof cases
    case absent
    with h have "status_updated dev (PDict payload) (Some c) =
                (dev\<lparr>d_status := fmupd c (PDict upd) (d_status dev)\<rparr>,
                 [DispatcherSend (PDict (fmupd c (PDict upd) (d_status dev)))], Inr ())"
      by (simp add: status_updated_scoped_absent)
    moreover have "\<forall>k. fmlookup upd k =
                    (if k |\<in>| fmdom upd then fmlookup upd k else fmlookup cur k)"
      using absent by (auto simp: fmdom_notD)
    ultimately show ?thesis by blast
  next
    case present
    with h have "status_updated dev (PDict payload) (Some c) =
           (dev\<lparr>d_status := fmupd c (PDict (cur ++\<^sub>f upd)) (d_status dev)\<rparr>,
            [DispatcherSend (PDict (fmupd c (PDict (cur ++\<^sub>f upd)) (d_status dev)))], Inr ())"
      by (simp add: status_updated_scoped_present)
    moreover have "\<forall>k. fmlookup (cur ++\<^sub>f upd) k =
                    (if k |\<in>| fmdom upd then fmlookup upd k else fmlookup cur k)"
      by simp
    ultimately show ?thesis by blast
  qed
next
  assume "\<not> cid_truthy cid"
  then have "status_updated dev (PDict payload) cid =
           (dev\<lparr>d_status := d_status dev ++\<^sub>f payload\<rparr>,
            [DispatcherSend (PDict (d_status dev ++\<^sub>f payload))], Inr ())"
    by (rule status_updated_unscoped)
  moreover have "\<forall>k. fmlookup (d_status dev ++\<^sub>f payload) k =
                      (if k |\<in>| fmdom payload then fmlookup payload k
                       else fmlookup (d_status dev) k)"
    by simp
  ultimately show "\<exists>cache. status_updated dev (PDict payload) cid =
                  (dev\<lparr>d_status := cache\<rparr>, [DispatcherSend (PDict cache)], Inr ()) \<and>
               (\<forall>k. fmlookup cache k =
                      (if k |\<in>| fmdom payload then fmlookup payload k
                       else fmlookup (d_status dev) k))"
    by blast
next
  show "fmdom (d_status dev) |\<subseteq>| fmdom (d_status (fst (status_updated dev st cid')))"
    by (rule status_updated_keeps_keys)
qed

text \<open>
  The example of the specification, derived from the theorem: \<open>{"1": "on"}\<close> and then
  \<open>{"2": "off"}\<close> for cid \<open>"26"\<close> of a fresh device leave both datapoints in the store of
  \<open>"26"\<close>; an unscoped update afterwards adds its key at the top level and keeps that store.
\<close>

theorem status_updated_merge_witness:
  "\<exists>dev1 dev2 sub.
     status_updated init_device
       (PDict (fmupd ''26'' (PDict (fmupd ''1'' (PStr ''on'') fmempty)) fmempty)) (Some ''26'') =
       (dev1, [DispatcherSend (PDict (d_status dev1))], Inr ()) \<and>
     status_updated dev1
       (PDict (fmupd ''26'' (PDict (fmupd ''2'' (PStr ''off'') fmempty)) fmempty)) (Some ''26'') =
       (dev2, [DispatcherSend (PDict (d_status dev2))], Inr ()) \<and>
     fmlookup (d_status dev2) ''26'' = Some (PDict sub) \<and>
     fmlookup sub ''1'' = Some (PStr ''on'') \<and>
     fmlookup sub ''2'' = Some (PStr ''off'') \<and>
     \<not> cid_truthy None \<and>
     fmlookup (d_status (fst (status_updated dev2
       (PDict (fmupd ''3'' (PInt 7) fmempty)) None))) ''3'' = Some (PInt 7) \<and>
     fmlookup (d_status (fst (status_updated dev2
       (PDict (fmupd ''3'' (PInt 7) fmempty)) None))) ''26'' = Some (PDict sub)"
proof -
  let ?u1 = "fmupd ''1'' (PStr ''on'') fmempty"
  let ?u2 = "fmupd ''2'' (PStr ''off'') fmempty"
  let ?p1 = "fmupd ''26'' (PDict ?u1) fmempty"
  let ?p2 = "fmupd ''26'' (PDict ?u2) fmempty"
  let ?p3 = "fmupd ''3'' (PInt 7) fmempty"
  have h1: "''26'' \<noteq> [] \<and> fmlookup ?p1 ''26'' = Some (PDict ?u1) \<and>
      (fmlookup (d_status init_device) ''26'' = None \<and> fmempty = fmempty \<or>
       fmlookup (d_status init_device) ''26'' = Some (PDict fmempty))"
    by (simp add: init_device_def)
  have "\<exists>sub. status_updated init_device (PDict ?p1) (Some ''26'') =
           (init_device\<lparr>d_status := fmupd ''26'' (PDict sub) (d_status init_device)\<rparr>,
            [DispatcherSend (PDict (fmupd ''26'' (PDict sub) (d_status init_device)))], Inr ()) \<and>
          (\<forall>k. fmlookup sub k = (if k |\<in>| fmdom ?u1 then fmlookup ?u1 k else fmlookup fmempty k))"
    using status_updated_merge [where c = "''26''" and payload = ?p1 and upd = ?u1
      and dev = init_device and cur = fmempty and cid = None and st = PNone and cid' = None] h1
    by blast
  then obtain sub1 where
    s1: "status_updated init_device (PDict ?p1) (Some ''26'') =
           (init_device\<lparr>d_status := fmupd ''26'' (PDict sub1) (d_status init_device)\<rparr>,
            [DispatcherSend (PDict (fmupd ''26'' (PDict sub1) (d_status init_device)))], Inr ())"
    and l1: "\<forall>k. fmlookup sub1 k = (if k |\<in>| fmdom ?u1 then fmlookup ?u1 k else fmlookup fmempty k)"
    by blast
  let ?dev1 = "init_device\<lparr>d_status := fmupd ''26'' (PDict sub1) (d_status init_device)\<rparr>"
  have h2: "''26'' \<noteq> [] \<and> fmlookup ?p2 ''26'' = Some (PDict ?u2) \<and>
      (fmlookup (d_status ?dev1) ''26'' = None \<and> sub1 = fmempty \<or>
       fmlookup (d_status ?dev1) ''26'' = Some (PDict sub1))"
    by simp
  have "\<exists>sub. status_updated ?dev1 (PDict ?p2) (Some ''26'') =
           (?dev1\<lparr>d_status := fmupd ''26'' (PDict sub) (d_status ?dev1)\<rparr>,
            [DispatcherSend (PDict (fmupd ''26'' (PDict sub) (d_status ?dev1)))], Inr ()) \<and>
          (\<forall>k. fmlookup sub k = (if k |\<in>| fmdom ?u2 then fmlookup ?u2 k else fmlookup sub1 k))"
    using status_updated_merge [where c = "''26''" and payload = ?p2 and upd = ?u2
      and dev = ?dev1 and cur = sub1 and cid = None and st = PNone and cid' = None] h2
    by blast
  then obtain sub2 where
    s2: "status_updated ?dev1 (PDict ?p2) (Some ''26'') =
           (?dev1\<lparr>d_status := fmupd ''26'' (PDict sub2) (d_status ?dev1)\<rparr>,
            [DispatcherSend (PDict (fmupd ''26'' (PDict sub2) (d_status ?dev1)))], Inr ())"
    and l2: "\<forall>k. fmlookup sub2 k = (if k |\<in>| fmdom ?u2 then fmlookup ?u2 k else fmlookup sub1 k)"
    by blast
  let ?dev2 = "?dev1\<lparr>d_status := fmupd ''26'' (PDict sub2) (d_status ?dev1)\<rparr>"
  have n: "\<not> cid_truthy None" by (simp add: cid_truthy_def)
  have "\<exists>cache. status_updated ?dev2 (PDict ?p3) None =
           (?dev2\<lparr>d_status := cache\<rparr>, [DispatcherSend (PDict cache)], Inr ()) \<and>
          (\<forall>k. fmlookup cache k =
               (if k |\<in>| fmdom ?p3 then fmlookup ?p3 k else fmlookup (d_status ?dev2) k))"
    using status_updated_merge [where c = "''26''" and payload = ?p3 and upd = ?u2
      and dev = ?dev2 and cur = sub1 and cid = None and st = PNone and cid' = None] n
    by blast
  then obtain cache where
    s3: "status_updated ?dev2 (PDict ?p3) None =
           (?dev2\<lparr>d_status := cache\<rparr>, [DispatcherSend (PDict cache)], Inr ())"
    and l3: "\<forall>k. fmlookup cache k =
               (if k |\<in>| fmdom ?p3 then fmlookup ?p3 k else fmlookup (d_status ?dev2) k)"
    by blast
  have a: "fmlookup sub2 ''1'' = Some (PStr ''on'')" using l1 l2 by simp
  have b: "fmlookup sub2 ''2'' = Some (PStr ''off'')" using l2 by simp
  have c: "fmlookup (d_status (fst (status_updated ?dev2 (PDict ?p3) None))) ''3'' = Some (PInt 7)"
    using s3 l3 by simp
  have d: "fmlookup (d_status (fst (status_updated ?dev2 (PDict ?p3) None))) ''26'' = Some (PDict sub2)"
    using s3 l3 by simp
  have e: "fmlookup (d_status ?dev2) ''26'' = Some (PDict sub2)" by simp
  have s1': "status_updated init_device (PDict ?p1) (Some ''26'') =
       (?dev1, [DispatcherSend (PDict (d_status ?dev1))], Inr ())"
    using s1 by simp
  have s2': "status_updated ?dev1 (PDict ?p2) (Some ''26'') =
       (?dev2, [DispatcherSend (PDict (d_status ?dev2))], Inr ())"
    using s2 by simp
  from s1' s2' e a b n c d show ?thesis by blast
qed

section \<open>The connection guard\<close>

text \<open>
  Claim C6 (idempotence guard of \<open>connect()\<close>). While the device is closing, while a
  connection task exists or while it is connected, \<open>async_connect\<close> changes nothing and
  creates no task. Only when none of the three holds does it create one task and store it.
  A second call right after any call is therefore a no-op, and two calls in a row create at
  most one task.
\<close>

theorem async_connect_guard:
  "(d_is_closing dev \<or> d_connect_task dev \<noteq> None \<or> d_interface dev \<noteq> None \<longrightarrow>
      async_connect dev = (dev, []))
   \<and> (\<not> d_is_closing dev \<and> d_connect_task dev = None \<and> d_interface dev = None \<longrightarrow>
      async_connect dev =
        (dev\<lparr>d_connect_task := Some MakeConnection\<rparr>, [CreateTask MakeConnection]))
   \<and> async_connect (fst (async_connect dev)) = (fst (async_connect dev), [])
   \<and> length (snd (async_connect dev) @ snd (async_connect (fst (async_connect dev)))) \<le> 1"
  by (auto simp: async_connect_def)

text \<open>The guard on a fresh device, on the same device with its task stored, on a connected
  device and on a closing device.\<close>

theorem async_connect_guard_witness:
  "async_connect init_device =
     (init_device\<lparr>d_connect_task := Some MakeConnection\<rparr>, [CreateTask MakeConnection])
   \<and> async_connect (init_device\<lparr>d_connect_task := Some MakeConnection\<rparr>) =
       (init_device\<lparr>d_connect_task := Some MakeConnection\<rparr>, [])
   \<and> async_connect connected_device = (connected_device, [])
   \<and> async_connect (init_device\<lparr>d_is_closing := True\<rparr>) =
       (init_device\<lparr>d_is_closing := True\<rparr>, [])"
  using async_connect_guard [of init_device]
    async_connect_guard [of "init_device\<lparr>d_connect_task := Some MakeConnection\<rparr>"]
    async_connect_guard [of connected_device]
    async_connect_guard [of "init_device\<lparr>d_is_closing := True\<rparr>"]
  by (simp add: init_device_def connected_device_def)

section \<open>Reading datapoints\<close>

text \<open>
  Claim C8 (reads of unknown datapoints are total). When the entity's cached status is a
  dictionary that lacks the key \<open>str(dp_index)\<close>, the accessor \<open>dps\<close> returns \<open>None\<close>, logs
  one warning and does not raise.
\<close>

theorem dps_unknown_index:
  assumes "e_status self = PDict d" and "fmlookup d (py_str dp_index) = None"
  shows "dps self dp_index = ([Log LWarning], Inr PNone)"
  using assms by (simp add: dps_def py_get_def)

text \<open>Entity A caches datapoint \<open>"1"\<close> only; reading datapoint 2 gives \<open>None\<close> and a warning.\<close>

theorem dps_unknown_index_witness:
  "e_status entity_a = PDict (fmupd ''1'' (PStr ''on'') fmempty) \<and>
   fmlookup (fmupd ''1'' (PStr ''on'') fmempty) (py_str (DpInt 2)) = None \<and>
   dps entity_a (DpInt 2) = ([Log LWarning], Inr PNone)"
proof -
  have a: "e_status entity_a = PDict (fmupd ''1'' (PStr ''on'') fmempty)"
    by (simp add: entity_a_def)
  have b: "fmlookup (fmupd ''1'' (PStr ''on'') fmempty) (py_str (DpInt 2)) = None"
    by (simp add: str_nat.simps digit_char_def)
  from a b dps_unknown_index [OF a b] show ?thesis by blast
qed

section \<open>Availability\<close>

lemma update_handler_unscoped_falsy:
  assumes "\<not> cid_truthy (e_cid self)" and "\<not> truthy payload"
  shows "update_handler dev self tr payload =
           ((dev, self\<lparr>e_status := PDict fmempty\<rparr>), [ScheduleUpdateHaState], Inr ())"
  using assms by (auto simp: update_handler_def cid_truthy_def split: option.splits)

lemma update_handler_scoped_missing:
  assumes "e_cid self = Some c" and "c \<noteq> []" and "fmlookup p c = None"
  shows "update_handler dev self tr (PDict p) =
           ((dev, self\<lparr>e_status := PDict fmempty\<rparr>), [ScheduleUpdateHaState], Inr ())"
  using assms by (simp add: update_handler_def py_get_def)

text \<open>
  Claim C10 (availability criterion). With a dictionary as local status, \<open>available\<close> is true
  exactly when \<open>str(self._dp_id)\<close> is one of its keys. A cleared local status makes the
  entity unavailable, and the update handler clears it for a whole-device entity that
  receives the sentinel (or any other falsy payload) and for a cid-scoped entity whose cid
  is missing from the snapshot. An entity that caches its own datapoint only is available
  although every other datapoint reads as \<open>None\<close>.
\<close>

theorem available_iff_primary_key:
  "(e_status self = PDict d \<longrightarrow> available self = Inr (py_str (e_dp_id self) |\<in>| fmdom d))
   \<and> available (self\<lparr>e_status := PDict fmempty\<rparr>) = Inr False
   \<and> (\<not> cid_truthy (e_cid self) \<and> \<not> truthy payload \<longrightarrow>
        (\<exists>self'. update_handler dev self tr payload =
                    ((dev, self'), [ScheduleUpdateHaState], Inr ()) \<and>
                 e_status self' = PDict fmempty \<and> available self' = Inr False))
   \<and> (e_cid self = Some c \<and> c \<noteq> [] \<and> fmlookup p c = None \<longrightarrow>
        (\<exists>self'. update_handler dev self tr (PDict p) =
                    ((dev, self'), [ScheduleUpdateHaState], Inr ()) \<and>
                 e_status self' = PDict fmempty \<and> available self' = Inr False))
   \<and> (e_status self = PDict (fmupd (py_str (e_dp_id self)) v fmempty) \<longrightarrow>
        available self = Inr True \<and>
        (\<forall>i. py_str i \<noteq> py_str (e_dp_id self) \<longrightarrow> dps self i = ([Log LWarning], Inr PNone)))"
proof (intro conjI impI)
  assume "e_status self = PDict d"
  then show "available self = Inr (py_str (e_dp_id self) |\<in>| fmdom d)"
    by (simp add: available_def)
next
  show c: "available (self\<lparr>e_status := PDict fmempty\<rparr>) = Inr False"
    by (simp add: available_def)
  {
    assume "\<not> cid_truthy (e_cid self) \<and> \<not> truthy payload"
    then have "update_handler dev self tr payload =
           ((dev, self\<lparr>e_status := PDict fmempty\<rparr>), [ScheduleUpdateHaState], Inr ())"
      by (simp add: update_handler_unscoped_falsy)
    with c show "\<exists>self'. update_handler dev self tr payload =
                    ((dev, self'), [ScheduleUpdateHaState], Inr ()) \<and>
                 e_status self' = PDict fmempty \<and> available self' = Inr False"
      by simp
  }
  {
    assume "e_cid self = Some c \<and> c \<noteq> [] \<and> fmlookup p c = None"
    then have "update_handler dev self tr (PDict p) =
           ((dev, self\<lparr>e_status := PDict fmempty\<rparr>), [ScheduleUpdateHaState], Inr ())"
      by (simp add: update_handler_scoped_missing)
    with c show "\<exists>self'. update_handler dev self tr (PDict p) =
                    ((dev, self'), [ScheduleUpdateHaState], Inr ()) \<and>
                 e_status self' = PDict fmempty \<and> available self' = Inr False"
      by simp
  }
next
  assume h: "e_status self = PDict (fmupd (py_str (e_dp_id self)) v fmempty)"
  then show "available self = Inr True" by (simp add: available_def)
  from h show "\<forall>i. py_str i \<noteq> py_str (e_dp_id self) \<longrightarrow> dps self i = ([Log LWarning], Inr PNone)"
    by (simp add: dps_def py_get_def)
qed

text \<open>Entity A is available with its own datapoint cached and unavailable with only
  datapoint \<open>"2"\<close> cached; the sentinel clears entity A; the flat snapshot of the
  specification's scenario, which has no key \<open>"26"\<close>, clears entity B.\<close>

theorem available_iff_primary_key_witness:
  "available entity_a = Inr True
   \<and> available (entity_a\<lparr>e_status := PDict (fmupd ''2'' (PStr ''off'') fmempty)\<rparr>) = Inr False
   \<and> (\<exists>self'. update_handler connected_device entity_a transport_ok PNone =
                 ((connected_device, self'), [ScheduleUpdateHaState], Inr ()) \<and>
               e_status self' = PDict fmempty \<and> available self' = Inr False)
   \<and> (\<exists>self'. update_handler connected_device entity_b transport_ok
                   (PDict (fmupd ''1'' (PStr ''on'') (fmupd ''2'' (PStr ''off'') fmempty))) =
                 ((connected_device, self'), [ScheduleUpdateHaState], Inr ()) \<and>
               e_status self' = PDict fmempty \<and> available self' = Inr False)
   \<and> dps entity_a (DpInt 2) = ([Log LWarning], Inr PNone)"
proof -
  let ?p = "fmupd ''1'' (PStr ''on'') (fmupd ''2'' (PStr ''off'') fmempty)"
  let ?e = "entity_a\<lparr>e_status := PDict (fmupd ''2'' (PStr ''off'') fmempty)\<rparr>"
  have s1: "py_str (e_dp_id entity_a) = ''1''" and s2: "py_str (DpInt 2) = ''2''"
    and s3: "py_str (e_dp_id ?e) = ''1''"
    by (simp_all add: entity_a_def str_nat.simps digit_char_def)
  have a: "e_status entity_a = PDict (fmupd (py_str (e_dp_id entity_a)) (PStr ''on'') fmempty)"
    by (simp add: s1) (simp add: entity_a_def)
  have b: "\<not> cid_truthy (e_cid entity_a) \<and> \<not> truthy PNone"
    by (simp add: entity_a_def cid_truthy_def)
  have c: "e_cid entity_b = Some ''26'' \<and> ''26'' \<noteq> [] \<and> fmlookup ?p ''26'' = None"
    by (simp add: entity_b_def)
  have d: "e_status ?e = PDict (fmupd ''2'' (PStr ''off'') fmempty)"
    by simp
  note t1 = available_iff_primary_key [where self = entity_a and v = "PStr ''on''"
      and payload = PNone and dev = connected_device and tr = transport_ok
      and c = "''26''" and p = ?p and d = "fmupd ''1'' (PStr ''on'') fmempty"]
  note t2 = available_iff_primary_key [where self = entity_b and v = "PStr ''on''"
      and payload = PNone and dev = connected_device and tr = transport_ok
      and c = "''26''" and p = ?p and d = "fmupd ''1'' (PStr ''on'') fmempty"]
  note t3 = available_iff_primary_key [where self = ?e and v = "PStr ''on''"
      and payload = PNone and dev = connected_device and tr = transport_ok
      and c = "''26''" and p = ?p and d = "fmupd ''2'' (PStr ''off'') fmempty"]
  have 1: "available entity_a = Inr True" using t1 a by blast
  have 2: "available ?e = Inr False"
  proof -
    from t3 d have "available ?e = Inr (py_str (e_dp_id ?e) |\<in>| fmdom (fmupd ''2'' (PStr ''off'') fmempty))"
      by blast
    then show ?thesis by (simp add: s1)
  qed
  have 3: "\<exists>self'. update_handler connected_device entity_a transport_ok PNone =
                 ((connected_device, self'), [ScheduleUpdateHaState], Inr ()) \<and>
               e_status self' = PDict fmempty \<and> available self' = Inr False"
    using t1 b by blast
  have 4: "\<exists>self'. update_handler connected_device entity_b transport_ok (PDict ?p) =
                 ((connected_device, self'), [ScheduleUpdateHaState], Inr ()) \<and>
               e_status self' = PDict fmempty \<and> available self' = Inr False"
    using t2 c by blast
  have "py_str (DpInt 2) \<noteq> py_str (e_dp_id entity_a)" by (simp only: s1 s2) simp
  with t1 a have 5: "dps entity_a (DpInt 2) = ([Log LWarning], Inr PNone)" by blast
  from 1 2 3 4 5 show ?thesis by blast
qed

section \<open>The refresh workaround\<close>




lemma refresh_subdevice_arms:
  "\<exists>cbs. d_refresh_callbacks (fst (refresh_subdevice dev tr x dp v iv)) = Some cbs \<and>
         fmlookup cbs x = Some (RefreshCallback x dp iv)"
  by (auto simp: refresh_subdevice_def Let_def split: option.splits)

lemma armed_device_eq:
  "armed_device = connected_device\<lparr>d_refresh_callbacks :=
      Some (fmupd ''30'' (RefreshCallback ''30'' (PStr ''101'') (PBool False)) fmempty)\<rparr>"
  by (simp add: armed_device_def refresh_subdevice_def connected_device_def init_device_def)




text \<open>
  The handler reads \<open>self._device._refresh_callbacks\<close> without testing that the attribute
  exists. On a device for which \<open>refresh_subdevice\<close> was never called, a snapshot with a
  truthy sub-map for the entity's cid makes the handler raise.
\<close>

lemma update_handler_without_callback_map:
  assumes "e_cid self = Some x" and "x \<noteq> []" and "d_refresh_callbacks dev = None"
    and "fmlookup payload x = Some sub" and "truthy sub"
  shows "update_handler dev self tr (PDict payload) = ((dev, self), [], Inl AttributeError)"
  using assms by (simp add: update_handler_def py_get_def)







text \<open>
  What the callback sends to the transport. A truthy seed is written first, then the status
  query follows; a falsy seed is not written at all. The query itself is the first call of
  \<open>status\<close> on a connected device.
\<close>

lemma refresh_callback_truthy_seed:
  assumes "d_refresh_callbacks dev = Some cbs" and "x |\<in>| fmdom cbs" and "truthy iv"
    and "d_interface dev = Some i" and "set_dps_reply tr = None"
  shows "fst (snd (refresh_callback dev tr (RefreshCallback x dp iv))) =
           [Log LDebug, Log LDebug, InterfaceSetDps [(dp, iv)] (Some x)] @
           fst (snd (status (dev\<lparr>d_refresh_callbacks := Some (fmdrop x cbs)\<rparr>) tr (Some x)))"
  using assms by (simp add: refresh_callback_def Let_def split: prod.splits)

lemma refresh_callback_falsy_seed:
  assumes "d_refresh_callbacks dev = Some cbs" and "x |\<in>| fmdom cbs" and "\<not> truthy iv"
  shows "fst (snd (refresh_callback dev tr (RefreshCallback x dp iv))) =
           Log LDebug #
           fst (snd (status (dev\<lparr>d_refresh_callbacks := Some (fmdrop x cbs)\<rparr>) tr (Some x)))"
  using assms by (simp add: refresh_callback_def Let_def split: prod.splits)

lemma status_query_first:
  assumes "d_interface dev = Some i"
  shows "\<exists>rest. fst (snd (status dev tr cid)) = [Log LDebug, InterfaceStatus cid] @ rest"
  using assms by (auto simp: status_def split: sum.splits prod.splits)

text \<open>
  Claim C4 (seed value of the refresh callback) does not hold of the code for a falsy seed.
  The callback tests \<open>if initial_value:\<close>, so with the seed \<open>False\<close> of the specification's
  scenario it writes nothing and only queries the status, as it does when no seed was
  given; with the truthy seed \<open>1\<close> it writes \<open>{"101": 1}\<close> first and queries afterwards.
\<close>

theorem refresh_callback_false_seed:
  "d_refresh_callbacks armed_device =
     Some (fmupd ''30'' (RefreshCallback ''30'' (PStr ''101'') (PBool False)) fmempty) \<and>
   fst (snd (refresh_callback armed_device transport_ok
               (RefreshCallback ''30'' (PStr ''101'') (PBool False)))) =
     [Log LDebug, Log LDebug, InterfaceStatus (Some ''30''),
      DispatcherSend (PDict (fmupd ''30''
        (PDict (fmupd ''1'' (PStr ''on'') (fmupd ''101'' (PBool False) fmempty))) fmempty))] \<and>
   fst (snd (refresh_callback
               (armed_device\<lparr>d_refresh_callbacks :=
                  Some (fmupd ''30'' (RefreshCallback ''30'' (PStr ''101'') (PInt 1)) fmempty)\<rparr>)
               transport_ok (RefreshCallback ''30'' (PStr ''101'') (PInt 1)))) =
     [Log LDebug, Log LDebug, InterfaceSetDps [(PStr ''101'', PInt 1)] (Some ''30''),
      Log LDebug, InterfaceStatus (Some ''30''),
      DispatcherSend (PDict (fmupd ''30''
        (PDict (fmupd ''1'' (PStr ''on'') (fmupd ''101'' (PBool False) fmempty))) fmempty))]"
  by (simp add: armed_device_eq connected_device_def init_device_def refresh_callback_def
      status_def status_updated_def py_getitem_def transport_ok_def Let_def)

section \<open>Disconnect\<close>

text \<open>The sentinel in the handler of any cid-scoped entity.\<close>

lemma update_handler_sentinel_scoped:
  assumes "e_cid self = Some x" and "x \<noteq> []"
  shows "update_handler dev self tr PNone = ((dev, self), [], Inl AttributeError)"
  using assms by (simp add: update_handler_def py_get_def)

text \<open>
  Claim C5 (disconnect propagation) does not hold of the code for a cid-scoped entity.
  \<open>disconnected\<close> sends the sentinel \<open>None\<close>; the handler of entity B, scoped to \<open>"26"\<close>, calls
  \<open>status.get\<close> on it and raises \<open>AttributeError\<close> before it clears anything, so entity B stays
  available. The handler of the whole-device entity A clears its local status.
\<close>

theorem disconnect_cid_scoped_raises:
  "disconnected connected_device = (init_device, [DispatcherSend PNone, Log LDebug], Inr ()) \<and>
   update_handler init_device entity_b transport_ok PNone =
     ((init_device, entity_b), [], Inl AttributeError) \<and>
   available entity_b = Inr True \<and>
   update_handler init_device entity_a transport_ok PNone =
     ((init_device, entity_a\<lparr>e_status := PDict fmempty\<rparr>), [ScheduleUpdateHaState], Inr ())"
  by (simp add: disconnected_def connected_device_def init_device_def update_handler_def
      py_get_def entity_b_def entity_a_def available_def)

section \<open>Capabilities that the configuration does not enable\<close>

lemma preset_mode_configured:
  assumes "has_config self CONF_PRESET_MODE_DP"
  shows "\<exists>v. preset_mode self = Inr (Ret (PStr v))"
proof (cases "find (\<lambda>(preset, v). PStr v = c_preset_mode self) PRESET_REMAP")
  case None
  with assms show ?thesis
    by (auto simp: preset_mode_def preset_modes_def)
next
  case (Some a)
  with assms show ?thesis
    by (cases a) (simp add: preset_mode_def)
qed

text \<open>
  Claim C9 (outcome of an unsupported capability), as amended. Without a usable value for
  the preset-mode datapoint (the key is absent, \<open>None\<close> or \<open>"-1"\<close>), reading the preset mode,
  reading the list of preset modes and setting a preset mode hand back a
  \<open>NotImplementedError\<close> object as their return value; nothing is raised and nothing is
  written. The same holds for setting an HVAC mode that is not remapped to a preset when no
  HVAC-mode datapoint is configured. With the preset-mode datapoint configured, the preset
  mode read is a mode name, the list is the five preset modes, and setting a mode forwards
  the remapped mode to the configured datapoint and returns \<open>None\<close>.
\<close>

theorem preset_not_supported:
  "(\<not> has_config self CONF_PRESET_MODE_DP \<longrightarrow>
      preset_mode self = Inr RetNotImplementedError \<and>
      preset_modes self = RetNotImplementedError \<and>
      async_set_preset_mode dev self tr m = ([], Inr RetNotImplementedError))
   \<and> (has_config self CONF_PRESET_MODE_DP \<longrightarrow>
      (\<exists>v. preset_mode self = Inr (Ret (PStr v))) \<and>
      preset_modes self =
        RetList [PRESET_COMFORT, PRESET_ECO, PRESET_AWAY, PRESET_BOOST, PRESET_HOME] \<and>
      (\<exists>dp. fmlookup (e_config self) CONF_PRESET_MODE_DP = Some dp \<and>
            async_set_preset_mode dev self tr m =
              (set_dp dev tr
                 (PStr (case map_of PRESET_REMAP m of Some v \<Rightarrow> v | None \<Rightarrow> m)) dp (e_cid self),
               Inr (Ret PNone))))
   \<and> (map_of HVAC_PRESET_REMAP m = None \<and> \<not> has_config self CONF_HVAC_MODE_DP \<longrightarrow>
      async_set_hvac_mode dev self tr m = ([], Inr RetNotImplementedError))"
proof (intro conjI impI)
  assume n: "\<not> has_config self CONF_PRESET_MODE_DP"
  then show "preset_mode self = Inr RetNotImplementedError"
    by (simp add: preset_mode_def)
  from n show "preset_modes self = RetNotImplementedError"
    by (simp add: preset_modes_def)
  from n show "async_set_preset_mode dev self tr m = ([], Inr RetNotImplementedError)"
    by (simp add: async_set_preset_mode_def)
next
  assume h: "has_config self CONF_PRESET_MODE_DP"
  then show "\<exists>v. preset_mode self = Inr (Ret (PStr v))"
    by (rule preset_mode_configured)
  from h show "preset_modes self =
        RetList [PRESET_COMFORT, PRESET_ECO, PRESET_AWAY, PRESET_BOOST, PRESET_HOME]"
    by (simp add: preset_modes_def PRESET_REMAP_def)
  from h obtain dp where "fmlookup (e_config self) CONF_PRESET_MODE_DP = Some dp"
    by (auto simp: has_config_def split: option.splits)
  with h show "\<exists>dp. fmlookup (e_config self) CONF_PRESET_MODE_DP = Some dp \<and>
            async_set_preset_mode dev self tr m =
              (set_dp dev tr
                 (PStr (case map_of PRESET_REMAP m of Some v \<Rightarrow> v | None \<Rightarrow> m)) dp (e_cid self),
               Inr (Ret PNone))"
    by (simp add: async_set_preset_mode_def entity_set_dp_def)
next
  assume "map_of HVAC_PRESET_REMAP m = None \<and> \<not> has_config self CONF_HVAC_MODE_DP"
  then show "async_set_hvac_mode dev self tr m = ([], Inr RetNotImplementedError)"
    by (simp add: async_set_hvac_mode_def)
qed

text \<open>The two climate entities: the one without a preset-mode datapoint answers with the
  \<open>NotImplementedError\<close> object; the other reads \<open>"away"\<close> for the cached \<open>"holiday"\<close> and
  writes \<open>"holiday"\<close> to datapoint \<open>"4"\<close> when asked to set \<open>"away"\<close>.\<close>

theorem preset_not_supported_witness:
  "\<not> has_config climate_plain CONF_PRESET_MODE_DP \<and>
   preset_mode climate_plain = Inr RetNotImplementedError \<and>
   preset_modes climate_plain = RetNotImplementedError \<and>
   async_set_preset_mode connected_device climate_plain transport_ok ''away'' =
     ([], Inr RetNotImplementedError) \<and>
   async_set_hvac_mode connected_device climate_plain transport_ok ''auto'' =
     ([], Inr RetNotImplementedError) \<and>
   has_config climate_full CONF_PRESET_MODE_DP \<and>
   preset_mode climate_full = Inr (Ret (PStr ''away'')) \<and>
   async_set_preset_mode connected_device climate_full transport_ok ''away'' =
     ([InterfaceSetDp (PStr ''holiday'') (PStr ''4'') None], Inr (Ret PNone))"
proof -
  have a: "\<not> has_config climate_plain CONF_PRESET_MODE_DP"
    by (simp add: has_config_def climate_plain_def)
  have b: "map_of HVAC_PRESET_REMAP ''auto'' = None \<and> \<not> has_config climate_plain CONF_HVAC_MODE_DP"
    by (simp add: has_config_def climate_plain_def HVAC_PRESET_REMAP_def HVAC_MODE_HEAT_def)
  have c: "has_config climate_full CONF_PRESET_MODE_DP"
    by (simp add: has_config_def climate_full_def)
  note t1 = preset_not_supported [where self = climate_plain and dev = connected_device
      and tr = transport_ok and m = "''away''"]
  note t2 = preset_not_supported [where self = climate_plain and dev = connected_device
      and tr = transport_ok and m = "''auto''"]
  note t3 = preset_not_supported [where self = climate_full and dev = connected_device
      and tr = transport_ok and m = "''away''"]
  from t1 a have 1: "preset_mode climate_plain = Inr RetNotImplementedError"
    and 2: "preset_modes climate_plain = RetNotImplementedError"
    and 3: "async_set_preset_mode connected_device climate_plain transport_ok ''away'' =
              ([], Inr RetNotImplementedError)"
    by blast+
  from t2 b have 4: "async_set_hvac_mode connected_device climate_plain transport_ok ''auto'' =
     ([], Inr RetNotImplementedError)"
    by blast
  have 5: "preset_mode climate_full = Inr (Ret (PStr ''away''))"
    by (simp add: preset_mode_def has_config_def climate_full_def PRESET_REMAP_def PRESET_AWAY_def)
  from t3 c obtain dp where
    d: "fmlookup (e_config climate_full) CONF_PRESET_MODE_DP = Some dp"
    and e: "async_set_preset_mode connected_device climate_full transport_ok ''away'' =
              (set_dp connected_device transport_ok
                 (PStr (case map_of PRESET_REMAP ''away'' of Some v \<Rightarrow> v | None \<Rightarrow> ''away''))
                 dp (e_cid climate_full),
               Inr (Ret PNone))"
    by blast
  from d have "dp = PStr ''4''" by (simp add: climate_full_def)
  with e have 6: "async_set_preset_mode connected_device climate_full transport_ok ''away'' =
     ([InterfaceSetDp (PStr ''holiday'') (PStr ''4'') None], Inr (Ret PNone))"
    by (simp add: set_dp_def connected_device_def init_device_def transport_ok_def
        PRESET_REMAP_def PRESET_AWAY_def climate_full_def)
  from a 1 2 3 4 c 5 6 show ?thesis by blast
qed

text \<open>
  Claim C9 as stated fails for operations that the code guards silently. Setting the target
  temperature without a target-temperature datapoint writes nothing and returns \<open>None\<close>,
  the value it also returns after a write; the list of HVAC modes without an HVAC-mode
  datapoint is the empty list.
\<close>

theorem preset_not_supported_counterexample:
  "\<not> has_config climate_plain CONF_TARGET_TEMPERATURE_DP \<and>
   async_set_temperature (\<lambda>t p. Inr t) connected_device climate_plain transport_ok
       (fmupd ATTR_TEMPERATURE (PInt 21) fmempty) =
     ([], Inr (Ret PNone)) \<and>
   has_config climate_full CONF_TARGET_TEMPERATURE_DP \<and>
   async_set_temperature (\<lambda>t p. Inr t) connected_device climate_full transport_ok
       (fmupd ATTR_TEMPERATURE (PInt 21) fmempty) =
     ([InterfaceSetDp (PInt 21) (PStr ''2'') None], Inr (Ret PNone)) \<and>
   hvac_modes climate_plain = RetList []"
  by (simp add: has_config_def climate_plain_def climate_full_def async_set_temperature_def
      entity_set_dp_def set_dp_def connected_device_def init_device_def transport_ok_def
      hvac_modes_def)

end
